theory Spec2Isabelle
  imports Complex_Main "HOL-Library.Sublist"
begin

section \<open>Python strings\<close>

text \<open>
  A Python \<open>str\<close> is modelled as a HOL \<open>string\<close>: a list of characters, each character being
  a code point below 256. The string methods that \<open>backend.py\<close> calls are written out
  below with the behaviour Python gives them on such strings.
\<close>

text \<open>\<open>str.lower()\<close>: the upper-case letters below code point 256 are \<open>A\<close>..\<open>Z\<close> and
  \<open>0xC0\<close>..\<open>0xDE\<close> without \<open>0xD7\<close>; each is 32 below its lower-case letter.\<close>

definition lower_char :: "char \<Rightarrow> char" where
  "lower_char c =
     (let n = (of_char c :: nat)
      in if (65 \<le> n \<and> n \<le> 90) \<or> (192 \<le> n \<and> n \<le> 222 \<and> n \<noteq> 215)
         then char_of (n + 32) else c)"

definition str_lower :: "string \<Rightarrow> string" where
  "str_lower s = map lower_char s"

text \<open>\<open>sub in s\<close>: \<open>sub\<close> occurs in \<open>s\<close> as a contiguous run of characters.\<close>

definition str_contains :: "string \<Rightarrow> string \<Rightarrow> bool" where
  "str_contains s sub = sublist sub s"

text \<open>\<open>s.startswith(pre)\<close>.\<close>

definition str_startswith :: "string \<Rightarrow> string \<Rightarrow> bool" where
  "str_startswith s pre = prefix pre s"

text \<open>\<open>str.isspace\<close> on one character: tab, line feed, vertical tab, form feed, carriage
  return, the four separators \<open>0x1C\<close>..\<open>0x1F\<close>, space, \<open>0x85\<close> and \<open>0xA0\<close>.\<close>

definition isspace :: "char \<Rightarrow> bool" where
  "isspace c =
     (let n = (of_char c :: nat)
      in (9 \<le> n \<and> n \<le> 13) \<or> (28 \<le> n \<and> n \<le> 32) \<or> n = 133 \<or> n = 160)"

text \<open>\<open>s.strip()\<close>: white space removed at both ends.\<close>

definition str_strip :: "string \<Rightarrow> string" where
  "str_strip s = rev (dropWhile isspace (rev (dropWhile isspace s)))"

text \<open>\<open>s.split(sep)\<close> for a separator of one character: the pieces between the
  separators, empty pieces included; never the empty list.\<close>

fun str_split :: "char \<Rightarrow> string \<Rightarrow> string list" where
  "str_split sep [] = [[]]"
| "str_split sep (c # cs) =
     (if c = sep then [] # str_split sep cs
      else (case str_split sep cs of
              [] \<Rightarrow> [[c]]
            | w # ws \<Rightarrow> (c # w) # ws))"

text \<open>\<open>s.replace(old, new)\<close>: every occurrence of \<open>old\<close>, found from the left and not
  overlapping, is replaced. \<open>replace_from\<close> is the scan for a non-empty \<open>old\<close>; for the
  empty \<open>old\<close> Python puts \<open>new\<close> before every character and at the end.\<close>

function replace_from :: "string \<Rightarrow> string \<Rightarrow> string \<Rightarrow> string" where
  "replace_from old new [] = []"
| "replace_from old new (c # cs) =
     (if old \<noteq> [] \<and> prefix old (c # cs)
      then new @ replace_from old new (drop (length old) (c # cs))
      else c # replace_from old new cs)"
  by pat_completeness auto
termination
  by (relation "measure (\<lambda>(old, new, s). length s)") (auto simp: neq_Nil_conv)

definition str_replace :: "string \<Rightarrow> string \<Rightarrow> string \<Rightarrow> string" where
  "str_replace old new s =
     (if old = [] then new @ concat (map (\<lambda>c. c # new) s)
      else replace_from old new s)"

text \<open>Truthiness of a value that is \<open>None\<close> or a string, as in \<open>if not KEY\<close> and
  \<open>bool(KEY)\<close>: \<open>None\<close> and the empty string are false.\<close>

definition truthy :: "string option \<Rightarrow> bool" where
  "truthy v = (case v of None \<Rightarrow> False | Some s \<Rightarrow> s \<noteq> [])"

text \<open>A Python \<open>float\<close>: a finite value, an infinity or not-a-number.\<close>

datatype pyfloat = Finite real | PosInf | NegInf | NaN

section \<open>Doctor type from the recommendation reply\<close>

text \<open>Lines 217 to 230 of \<open>find_doctor\<close>: the chain of keyword tests on
  \<open>ai_response.lower()\<close>, the first test that succeeds deciding.\<close>

definition doctor_type_of :: "string \<Rightarrow> string" where
  "doctor_type_of ai_response =
     (if str_contains (str_lower ai_response) ''cardiologist'' then ''Cardiologist''
      else if str_contains (str_lower ai_response) ''dermatologist'' then ''Dermatologist''
      else if str_contains (str_lower ai_response) ''orthopedic'' then ''Orthopedic''
      else if str_contains (str_lower ai_response) ''neurologist'' then ''Neurologist''
      else if str_contains (str_lower ai_response) ''ent''
            \<or> str_contains (str_lower ai_response) ''ear'' then ''ENT Specialist''
      else if str_contains (str_lower ai_response) ''pediatrician'' then ''Pediatrician''
      else ''General Physician'')"

section \<open>Extraction of symptoms and location\<close>

text \<open>The local variables \<open>symptoms\<close>, \<open>location\<close>, \<open>latitude\<close> and \<open>longitude\<close> of
  \<open>find_doctor\<close>, with the values they are given before the loop (lines 167 to 170).\<close>

record extracted =
  symptoms :: string
  location :: string
  latitude :: pyfloat
  longitude :: pyfloat

definition defaults :: extracted where
  "defaults = \<lparr>symptoms = ''General symptoms'', location = ''Mumbai'',
                latitude = Finite 19.0760, longitude = Finite 72.8777\<rparr>"

text \<open>The body of the loop (lines 173 to 187) on one line of the reply. Python's built-in
  \<open>float\<close> is not code of the repository: it is the parameter \<open>float_of\<close>, which is \<open>None\<close>
  where \<open>float\<close> raises; the bare \<open>except: pass\<close> then leaves the variable as it was.\<close>

definition parse_line :: "(string \<Rightarrow> pyfloat option) \<Rightarrow> string \<Rightarrow> extracted \<Rightarrow> extracted" where
  "parse_line float_of raw st =
     (let line = str_strip raw
      in if str_startswith line ''SYMPTOMS:''
         then st\<lparr>symptoms := str_strip (str_replace ''SYMPTOMS:'' [] line)\<rparr>
         else if str_startswith line ''LOCATION:''
         then st\<lparr>location := str_strip (str_replace ''LOCATION:'' [] line)\<rparr>
         else if str_startswith line ''LATITUDE:''
         then (case float_of (str_strip (str_replace ''LATITUDE:'' [] line)) of
                 None \<Rightarrow> st
               | Some v \<Rightarrow> st\<lparr>latitude := v\<rparr>)
         else if str_startswith line ''LONGITUDE:''
         then (case float_of (str_strip (str_replace ''LONGITUDE:'' [] line)) of
                 None \<Rightarrow> st
               | Some v \<Rightarrow> st\<lparr>longitude := v\<rparr>)
         else st)"

text \<open>The loop over \<open>extraction_text.split("\n")\<close>, from the first line to the last.\<close>

definition parse_extraction :: "(string \<Rightarrow> pyfloat option) \<Rightarrow> string \<Rightarrow> extracted" where
  "parse_extraction float_of extraction_text =
     fold (parse_line float_of) (str_split CHR 0x0A extraction_text) defaults"

section \<open>The reply of the generative-language provider\<close>

text \<open>The objects that \<open>generate_content\<close> returns belong to the provider's client library.
  The handler reads them through \<open>hasattr\<close> and truthiness tests, so an attribute is
  either missing or present, and a present one may be \<open>None\<close>.\<close>

datatype 'a attr = NoAttr | Attr 'a

record grounding_chunk_maps =
  title :: "string option attr"
  uri :: "string option attr"

record grounding_chunk =
  maps :: "grounding_chunk_maps option attr"

record grounding_metadata_t =
  grounding_chunks :: "grounding_chunk list option attr"

record candidate =
  grounding_metadata :: "grounding_metadata_t option attr"

record gen_response =
  resp_text :: "string option"
  candidates :: "candidate list option attr"

section \<open>Nearby doctors\<close>

record nearby_doctor =
  name :: "string option"
  address :: string
  distance :: string
  rating :: real
  "open" :: string
  url :: "string option"

text \<open>The dictionary built for one grounding chunk (lines 263 to 277); no dictionary when
  the chunk has no \<open>maps\<close> attribute or a false one.\<close>

definition doctor_info :: "string \<Rightarrow> grounding_chunk \<Rightarrow> nearby_doctor list" where
  "doctor_info loc chunk =
     (case maps chunk of
        Attr (Some m) \<Rightarrow>
          [\<lparr>name = (case title m of Attr t \<Rightarrow> t | NoAttr \<Rightarrow> Some ''Medical Center''),
            address = loc,
            distance = ''See Google Maps'',
            rating = 4.5,
            open = ''See Google Maps for hours'',
            url = (case uri m of Attr u \<Rightarrow> u | NoAttr \<Rightarrow> Some [])\<rparr>]
      | _ \<Rightarrow> [])"

text \<open>Lines 249 to 277: the first candidate's grounding chunks, the first five of them,
  each appended in order.\<close>

definition grounded_doctors :: "string \<Rightarrow> gen_response \<Rightarrow> nearby_doctor list" where
  "grounded_doctors loc maps_response =
     (case candidates maps_response of
        Attr (Some (cand # _)) \<Rightarrow>
          (case grounding_metadata cand of
             Attr (Some grounding) \<Rightarrow>
               (case grounding_chunks grounding of
                  Attr (Some chunks) \<Rightarrow>
                    (if chunks \<noteq> [] then concat (map (doctor_info loc) (take 5 chunks)) else [])
                | _ \<Rightarrow> [])
           | _ \<Rightarrow> [])
      | _ \<Rightarrow> [])"

text \<open>The fallback entry of lines 281 to 290.\<close>

definition search_url :: "string \<Rightarrow> string \<Rightarrow> string" where
  "search_url dtype loc =
     ''https://www.google.com/maps/search/'' @ dtype @ ''+near+'' @ str_replace '' '' ''+'' loc"

definition fallback_entry :: "string \<Rightarrow> string \<Rightarrow> nearby_doctor" where
  "fallback_entry dtype loc =
     \<lparr>name = Some (''Search '' @ dtype @ '' in '' @ loc),
      address = loc,
      distance = ''Click to search'',
      rating = 0,
      open = ''Search on Google Maps'',
      url = Some (search_url dtype loc)\<rparr>"

text \<open>Lines 249 to 290 together: the grounded entries, or the fallback when there are none.\<close>

definition nearby_doctors_of :: "string \<Rightarrow> string \<Rightarrow> gen_response \<Rightarrow> nearby_doctor list" where
  "nearby_doctors_of dtype loc maps_response =
     (let nearby = grounded_doctors loc maps_response
      in if nearby = [] then [fallback_entry dtype loc] else nearby)"

section \<open>Exceptions, environment and outbound calls\<close>

text \<open>An exception that derives from \<open>Exception\<close>: the framework's \<open>HTTPException\<close> with its
  status code and detail, or any other one, given by its \<open>str()\<close>. What \<open>str()\<close> gives for an
  \<open>HTTPException\<close> is decided by the web framework, so it is the parameter \<open>http_str\<close>.\<close>

datatype exn = HTTPException int string | Exception string

definition str_exn :: "(int \<Rightarrow> string \<Rightarrow> string) \<Rightarrow> exn \<Rightarrow> string" where
  "str_exn http_str e =
     (case e of HTTPException status detail \<Rightarrow> http_str status detail | Exception msg \<Rightarrow> msg)"

text \<open>The \<open>AttributeError\<close> of Python for a method called on an object that lacks it.\<close>

definition attribute_error :: "string \<Rightarrow> string \<Rightarrow> exn" where
  "attribute_error ty attr =
     Exception ([CHR 0x27] @ ty @ [CHR 0x27] @ '' object has no attribute ''
                @ [CHR 0x27] @ attr @ [CHR 0x27])"

text \<open>The process environment after \<open>load_dotenv()\<close>, and the two module-level keys read
  from it with \<open>os.getenv\<close> (lines 28 and 38).\<close>

type_synonym environ = "string \<rightharpoonup> string"

definition GEMINI_API_KEY :: "environ \<Rightarrow> string option" where
  "GEMINI_API_KEY env = env ''GEMINI_API_KEY''"

definition SARVAM_API_KEY :: "environ \<Rightarrow> string option" where
  "SARVAM_API_KEY env = env ''SARVAM_API_KEY''"

text \<open>The two kinds of outbound call. Every handler returns, beside its result, the list of
  the outbound calls it made, in the order it made them.\<close>

record sarvam_request =
  post_url :: string
  api_subscription_key :: string
  file_name :: "string option"
  file_content :: string
  file_content_type :: "string option"
  data_model :: string
  data_prompt :: string

record gen_request =
  model :: string
  contents :: string
  lat_lng :: "(pyfloat \<times> pyfloat) option"

datatype outbound = SarvamPost sarvam_request | GenerateContent gen_request

section \<open>Health check\<close>

record health_response =
  status :: string
  message :: string
  gemini_configured :: bool
  sarvam_configured :: bool

definition health :: "environ \<Rightarrow> health_response \<times> outbound list" where
  "health env =
     (\<lparr>status = ''healthy'',
       message = ''AayuCare POC API is running!'',
       gemini_configured = truthy (GEMINI_API_KEY env),
       sarvam_configured = truthy (SARVAM_API_KEY env)\<rparr>, [])"

section \<open>Speech to text\<close>

datatype json = JNull | JBool bool | JInt int | JFloat pyfloat | JString string
  | JArray "json list" | JObject "(string \<times> json) list"

text \<open>The name Python gives the type of a parsed JSON value.\<close>

fun type_name :: "json \<Rightarrow> string" where
  "type_name JNull = ''NoneType''"
| "type_name (JBool b) = ''bool''"
| "type_name (JInt i) = ''int''"
| "type_name (JFloat f) = ''float''"
| "type_name (JString s) = ''str''"
| "type_name (JArray xs) = ''list''"
| "type_name (JObject kvs) = ''dict''"

text \<open>\<open>d.get(key, default)\<close> on a parsed JSON object.\<close>

definition dict_get :: "(string \<times> json) list \<Rightarrow> string \<Rightarrow> json \<Rightarrow> json" where
  "dict_get d key dflt = (case map_of d key of None \<Rightarrow> dflt | Some v \<Rightarrow> v)"

text \<open>The uploaded file, and the provider's HTTP response as far as the handler reads it:
  \<open>status_code\<close>, \<open>text\<close> and the outcome of \<open>json()\<close>.\<close>

record upload_file =
  filename :: "string option"
  content_type :: "string option"
  read :: "exn + string"

record http_response =
  status_code :: int
  body_text :: string
  json_of :: "exn + json"

record stt_response =
  stt_success :: bool
  stt_text :: json
  stt_language :: json

text \<open>The \<open>try\<close> block of \<open>speech_to_text\<close> (lines 85 to 119): \<open>Inl\<close> is the exception that
  leaves the block.\<close>

definition speech_to_text_try ::
  "string \<Rightarrow> (sarvam_request \<Rightarrow> exn + http_response) \<Rightarrow> upload_file
     \<Rightarrow> (exn + stt_response) \<times> outbound list" where
  "speech_to_text_try key post audio =
     (case read audio of
        Inl e \<Rightarrow> (Inl e, [])
      | Inr audio_content \<Rightarrow>
          (let req = \<lparr>post_url = ''https://api.sarvam.ai/speech-to-text-translate'',
                      api_subscription_key = key,
                      file_name = filename audio,
                      file_content = audio_content,
                      file_content_type = content_type audio,
                      data_model = ''saaras:v2'',
                      data_prompt = ''medical symptoms healthcare''\<rparr>
           in case post req of
                Inl e \<Rightarrow> (Inl e, [SarvamPost req])
              | Inr response \<Rightarrow>
                  if status_code response \<noteq> 200
                  then (Inl (HTTPException (status_code response)
                               (''Sarvam API error: '' @ body_text response)),
                        [SarvamPost req])
                  else (case json_of response of
                          Inl e \<Rightarrow> (Inl e, [SarvamPost req])
                        | Inr result \<Rightarrow>
                            (case result of
                               JObject d \<Rightarrow>
                                 (Inr \<lparr>stt_success = True,
                                       stt_text = dict_get d ''transcript'' (JString []),
                                       stt_language = dict_get d ''language_code'' (JString ''en'')\<rparr>,
                                  [SarvamPost req])
                             | _ \<Rightarrow> (Inl (attribute_error (type_name result) ''get''),
                                     [SarvamPost req])))))"

text \<open>The handler of \<open>POST /api/speech-to-text\<close>: the key check of lines 78 to 82, then the
  \<open>try\<close> block under \<open>except Exception as e\<close> (lines 121 to 125). \<open>Inl\<close> is the
  \<open>HTTPException\<close> that leaves the handler.\<close>

definition speech_to_text ::
  "(int \<Rightarrow> string \<Rightarrow> string) \<Rightarrow> environ \<Rightarrow> (sarvam_request \<Rightarrow> exn + http_response)
     \<Rightarrow> upload_file \<Rightarrow> (exn + stt_response) \<times> outbound list" where
  "speech_to_text http_str env post audio =
     (case SARVAM_API_KEY env of
        None \<Rightarrow>
          (Inl (HTTPException 500
             ''Sarvam API key not configured. Please add SARVAM_API_KEY to .env file''), [])
      | Some key \<Rightarrow>
          if key = []
          then (Inl (HTTPException 500
             ''Sarvam API key not configured. Please add SARVAM_API_KEY to .env file''), [])
          else (case speech_to_text_try key post audio of
                  (Inl e, calls) \<Rightarrow>
                    (Inl (HTTPException 500
                       (''Failed to convert speech to text: '' @ str_exn http_str e)), calls)
                | (Inr r, calls) \<Rightarrow> (Inr r, calls)))"

section \<open>Find doctor\<close>

text \<open>The three prompts (lines 148 to 158, 190 to 206 and 233).\<close>

definition extraction_prompt :: "string \<Rightarrow> string" where
  \<open>extraction_prompt inp =
     ''Extract the symptoms and location from the following user input.\<newline>\<newline>User Input: ''
     @ inp
     @ ''\<newline>\<newline>Provide the response in this exact format:\<newline>SYMPTOMS: [extracted symptoms]\<newline>''
     @ ''LOCATION: [extracted city name or "Mumbai" if not mentioned]\<newline>''
     @ ''LATITUDE: [latitude of the location]\<newline>LONGITUDE: [longitude of the location]\<newline>\<newline>''
     @ ''If location is not mentioned, use Mumbai as default (19.0760, 72.8777).''\<close>

definition recommendation_prompt :: "string \<Rightarrow> string \<Rightarrow> string" where
  \<open>recommendation_prompt sym_text loc =
     ''You are a helpful healthcare assistant for rural areas.\<newline>\<newline>User Symptoms: ''
     @ sym_text @ ''\<newline>User Location: '' @ loc
     @ ''\<newline>\<newline>Please provide:\<newline>''
     @ ''1. What type of doctor they should see (e.g., General Physician, Cardiologist, Dermatologist)\<newline>''
     @ ''2. A brief, simple explanation (1-2 sentences)\<newline>''
     @ ''3. What to tell the doctor when they visit\<newline>\<newline>''
     @ ''Keep it simple and in plain language. Don't give medical advice, just help them find the right doctor type.\<newline>\<newline>''
     @ ''Format your response as:\<newline>Doctor Type: [type]\<newline>Reason: [simple explanation]\<newline>''
     @ ''What to mention: [key symptoms to tell doctor]\<newline>''\<close>

definition maps_prompt :: "string \<Rightarrow> string" where
  "maps_prompt dtype =
     ''Find the best '' @ dtype
     @ '' doctors or clinics near me. List top 5 options with their name, address, rating, and distance.''"

record find_doctor_response =
  success :: bool
  doctor_type :: string
  recommendation :: string
  resp_location :: string
  resp_symptoms :: string
  nearby_doctors :: "nearby_doctor list"

text \<open>The \<open>try\<close> block of \<open>find_doctor\<close> (lines 147 to 299). \<open>generate_content\<close> is the
  provider's client: \<open>Inl\<close> where the call raises. A reply whose \<open>text\<close> is \<open>None\<close> makes
  \<open>split\<close> (line 172) or \<open>lower\<close> (line 219) raise \<open>AttributeError\<close>.\<close>

definition find_doctor_try ::
  "(string \<Rightarrow> pyfloat option) \<Rightarrow> (gen_request \<Rightarrow> exn + gen_response) \<Rightarrow> string
     \<Rightarrow> (exn + find_doctor_response) \<times> outbound list" where
  "find_doctor_try float_of generate_content inp =
     (let req1 = \<lparr>model = ''gemini-2.0-flash'', contents = extraction_prompt inp,
                   lat_lng = None\<rparr>
      in case generate_content req1 of
           Inl e \<Rightarrow> (Inl e, [GenerateContent req1])
         | Inr response1 \<Rightarrow>
             (case resp_text response1 of
                None \<Rightarrow> (Inl (attribute_error ''NoneType'' ''split''), [GenerateContent req1])
              | Some extraction_text \<Rightarrow>
                  (let ex = parse_extraction float_of extraction_text;
                       req2 = \<lparr>model = ''gemini-2.0-flash'',
                               contents = recommendation_prompt (symptoms ex) (location ex),
                               lat_lng = None\<rparr>
                   in case generate_content req2 of
                        Inl e \<Rightarrow> (Inl e, [GenerateContent req1, GenerateContent req2])
                      | Inr response2 \<Rightarrow>
                          (case resp_text response2 of
                             None \<Rightarrow>
                               (Inl (attribute_error ''NoneType'' ''lower''),
                                [GenerateContent req1, GenerateContent req2])
                           | Some ai_response \<Rightarrow>
                               (let dtype = doctor_type_of ai_response;
                                    req3 = \<lparr>model = ''gemini-2.0-flash'',
                                            contents = maps_prompt dtype,
                                            lat_lng = Some (latitude ex, longitude ex)\<rparr>
                                in case generate_content req3 of
                                     Inl e \<Rightarrow>
                                       (Inl e, [GenerateContent req1, GenerateContent req2,
                                                GenerateContent req3])
                                   | Inr maps_response \<Rightarrow>
                                       (Inr \<lparr>success = True,
                                             doctor_type = dtype,
                                             recommendation = ai_response,
                                             resp_location = location ex,
                                             resp_symptoms = symptoms ex,
                                             nearby_doctors =
                                               nearby_doctors_of dtype (location ex) maps_response\<rparr>,
                                        [GenerateContent req1, GenerateContent req2,
                                         GenerateContent req3]))))))"

text \<open>The handler of \<open>POST /api/find-doctor\<close>: the key check of lines 140 to 144, then the
  \<open>try\<close> block under \<open>except Exception as e\<close> (lines 301 to 305).\<close>

definition find_doctor ::
  "(int \<Rightarrow> string \<Rightarrow> string) \<Rightarrow> (string \<Rightarrow> pyfloat option) \<Rightarrow> environ
     \<Rightarrow> (gen_request \<Rightarrow> exn + gen_response) \<Rightarrow> string
     \<Rightarrow> (exn + find_doctor_response) \<times> outbound list" where
  "find_doctor http_str float_of env generate_content inp =
     (if \<not> truthy (GEMINI_API_KEY env)
      then (Inl (HTTPException 500
              ''Gemini API key not configured. Please add GEMINI_API_KEY to .env file''), [])
      else (case find_doctor_try float_of generate_content inp of
              (Inl e, calls) \<Rightarrow>
                (Inl (HTTPException 500
                   (''Failed to analyze symptoms: '' @ str_exn http_str e)), calls)
            | (Inr r, calls) \<Rightarrow> (Inr r, calls)))"

section \<open>The keyword table as the specification words it\<close>

text \<open>The specification's wording of the doctor type: a fixed ordered list of keywords, each
  with its specialty (the fifth entry has the two keywords \<open>ent\<close> and \<open>ear\<close>); a keyword
  occurs when some contiguous part of the reply equals it up to the case of its letters; the
  first entry with a keyword that occurs gives the specialty.\<close>

definition same_ignoring_case :: "string \<Rightarrow> string \<Rightarrow> bool" where
  "same_ignoring_case u v = (str_lower u = str_lower v)"

definition occurs_ignoring_case :: "string \<Rightarrow> string \<Rightarrow> bool" where
  "occurs_ignoring_case kw reply =
     (\<exists>before part after. reply = before @ part @ after \<and> same_ignoring_case part kw)"

definition keyword_table :: "(string list \<times> string) list" where
  "keyword_table =
     [([''cardiologist''], ''Cardiologist''),
      ([''dermatologist''], ''Dermatologist''),
      ([''orthopedic''], ''Orthopedic''),
      ([''neurologist''], ''Neurologist''),
      ([''ent'', ''ear''], ''ENT Specialist''),
      ([''pediatrician''], ''Pediatrician'')]"

fun first_match :: "(string list \<times> string) list \<Rightarrow> string \<Rightarrow> string" where
  "first_match [] reply = ''General Physician''"
| "first_match ((kws, specialty) # rest) reply =
     (if \<exists>kw \<in> set kws. occurs_ignoring_case kw reply then specialty
      else first_match rest reply)"

section \<open>Reading the extraction loop\<close>

text \<open>Names for what the loop of \<open>parse_extraction\<close> sees: the stripped lines of the reply, the
  value a label line carries, and the values that the lines with a given label assign, in
  the order of the lines.\<close>

definition stripped_lines :: "string \<Rightarrow> string list" where
  "stripped_lines extraction_text = map str_strip (str_split CHR 0x0A extraction_text)"

definition label_value :: "string \<Rightarrow> string \<Rightarrow> string" where
  "label_value label line = str_strip (str_replace label [] line)"

definition last_or :: "'a \<Rightarrow> 'a list \<Rightarrow> 'a" where
  "last_or d xs = (if xs = [] then d else last xs)"

definition text_values :: "string \<Rightarrow> string list \<Rightarrow> string list" where
  "text_values label ls = map (label_value label) (filter (\<lambda>l. str_startswith l label) ls)"

definition float_values :: "(string \<Rightarrow> pyfloat option) \<Rightarrow> string \<Rightarrow> string list \<Rightarrow> pyfloat list" where
  "float_values float_of label ls =
     List.map_filter (\<lambda>l. if str_startswith l label then float_of (label_value label l) else None) ls"

section \<open>Reading the nearby doctors\<close>

text \<open>The grounding chunks that the loop of line 262 runs over (none where one of the tests
  around it fails), the reply that the provider gave to an outbound call, and a string with
  every space turned into \<open>+\<close>.\<close>

definition looped_chunks :: "gen_response \<Rightarrow> grounding_chunk list" where
  "looped_chunks maps_response =
     (case candidates maps_response of
        Attr (Some (cand # _)) \<Rightarrow>
          (case grounding_metadata cand of
             Attr (Some grounding) \<Rightarrow>
               (case grounding_chunks grounding of
                  Attr (Some chunks) \<Rightarrow> take 5 chunks
                | _ \<Rightarrow> [])
           | _ \<Rightarrow> [])
      | _ \<Rightarrow> [])"

definition reply_to :: "(gen_request \<Rightarrow> exn + gen_response) \<Rightarrow> outbound \<Rightarrow> gen_response option" where
  "reply_to generate_content call =
     (case call of
        GenerateContent req \<Rightarrow>
          (case generate_content req of Inl e \<Rightarrow> None | Inr response \<Rightarrow> Some response)
      | SarvamPost req \<Rightarrow> None)"

definition plus_for_space :: "string \<Rightarrow> string" where
  "plus_for_space s = map (\<lambda>c. if c = CHR '' '' then CHR ''+'' else c) s"

section \<open>Reading the handlers\<close>







section \<open>Example inputs\<close>

text \<open>A configured environment, a number parser that knows two numerals, a provider client
  that answers the three requests of \<open>find_doctor\<close> (the maps request with the reply it is
  given), a maps reply without grounding and one with six grounding chunks, the second of
  them without a \<open>maps\<close> part.\<close>

definition example_env :: environ where
  "example_env = [''GEMINI_API_KEY'' \<mapsto> ''g-key'', ''SARVAM_API_KEY'' \<mapsto> ''s-key'']"

definition example_float_of :: "string \<Rightarrow> pyfloat option" where
  "example_float_of s =
     (if s = ''28.61'' then Some (Finite 28.61)
      else if s = ''77.21'' then Some (Finite 77.21) else None)"

definition example_http_str :: "int \<Rightarrow> string \<Rightarrow> string" where
  "example_http_str code detail = detail"

definition example_client :: "gen_response \<Rightarrow> gen_request \<Rightarrow> exn + gen_response" where
  "example_client maps_response req =
     (case lat_lng req of
        Some ll \<Rightarrow> Inr maps_response
      | None \<Rightarrow>
          if str_startswith (contents req) ''Extract''
          then Inr \<lparr>resp_text = Some ''SYMPTOMS: chest pain\<newline>LOCATION: New Delhi\<newline>LATITUDE: 28.61\<newline>LONGITUDE: 77.21'',
                    candidates = NoAttr\<rparr>
          else Inr \<lparr>resp_text = Some ''Doctor Type: Cardiologist\<newline>Reason: chest pain'',
                    candidates = NoAttr\<rparr>)"

definition example_chunk :: "string \<Rightarrow> string \<Rightarrow> grounding_chunk" where
  "example_chunk t u = \<lparr>maps = Attr (Some \<lparr>title = Attr (Some t), uri = Attr (Some u)\<rparr>)\<rparr>"

definition example_no_grounding :: gen_response where
  "example_no_grounding = \<lparr>resp_text = Some ''Here are some clinics'', candidates = Attr None\<rparr>"

definition example_grounding :: gen_response where
  "example_grounding =
     \<lparr>resp_text = Some ''Here are some clinics'',
      candidates = Attr (Some [\<lparr>grounding_metadata = Attr (Some \<lparr>grounding_chunks = Attr (Some
        [example_chunk ''Heart Care'' ''https://maps.example/1'',
         \<lparr>maps = Attr None\<rparr>,
         example_chunk ''City Clinic'' ''https://maps.example/3'',
         example_chunk ''Apollo'' ''https://maps.example/4'',
         example_chunk ''Max'' ''https://maps.example/5'',
         example_chunk ''Fortis'' ''https://maps.example/6''])\<rparr>)\<rparr>])\<rparr>"

definition example_response :: "nearby_doctor list \<Rightarrow> find_doctor_response" where
  "example_response nearby =
     \<lparr>success = True, doctor_type = ''Cardiologist'',
      recommendation = ''Doctor Type: Cardiologist\<newline>Reason: chest pain'',
      resp_location = ''New Delhi'', resp_symptoms = ''chest pain'',
      nearby_doctors = nearby\<rparr>"

definition example_entry :: "string \<Rightarrow> string \<Rightarrow> nearby_doctor" where
  "example_entry t u =
     \<lparr>name = Some t, address = ''New Delhi'', distance = ''See Google Maps'', rating = 4.5,
      open = ''See Google Maps for hours'', url = Some u\<rparr>"

text \<open>An uploaded recording, a transcription provider that answers 429 and one that gives
  a fixed outcome, a provider client that gives its three calls fixed outcomes, replies
  with and without text, and the response of a call that ends with the fallback entry.\<close>

definition example_audio :: upload_file where
  "example_audio = \<lparr>filename = Some ''voice.wav'', content_type = Some ''audio/wav'',
                     read = Inr ''RIFF''\<rparr>"

definition example_post_429 :: "sarvam_request \<Rightarrow> exn + http_response" where
  "example_post_429 req =
     Inr \<lparr>status_code = 429, body_text = ''rate limit exceeded'',
          json_of = Inl (Exception ''Expecting value: line 1 column 1 (char 0)'')\<rparr>"


definition example_script ::
  "(exn + gen_response) \<Rightarrow> (exn + gen_response) \<Rightarrow> (exn + gen_response)
     \<Rightarrow> gen_request \<Rightarrow> exn + gen_response" where
  "example_script first_reply second_reply third_reply req =
     (case lat_lng req of
        Some ll \<Rightarrow> third_reply
      | None \<Rightarrow> if str_startswith (contents req) ''Extract'' then first_reply else second_reply)"

definition example_extraction :: gen_response where
  "example_extraction =
     \<lparr>resp_text = Some ''SYMPTOMS: chest pain\<newline>LOCATION: New Delhi\<newline>LATITUDE: 28.61\<newline>LONGITUDE: 77.21'',
      candidates = NoAttr\<rparr>"

definition example_reply :: "string \<Rightarrow> gen_response" where
  "example_reply t = \<lparr>resp_text = Some t, candidates = NoAttr\<rparr>"


definition example_result :: "string \<Rightarrow> string \<Rightarrow> find_doctor_response" where
  "example_result dtype reply =
     \<lparr>success = True, doctor_type = dtype, recommendation = reply,
      resp_location = ''New Delhi'', resp_symptoms = ''chest pain'',
      nearby_doctors = [fallback_entry dtype ''New Delhi'']\<rparr>"

section \<open>Properties of the doctor type\<close>

lemma lower_keywords:
  "str_lower ''cardiologist'' = ''cardiologist''"
  "str_lower ''dermatologist'' = ''dermatologist''"
  "str_lower ''orthopedic'' = ''orthopedic''"
  "str_lower ''neurologist'' = ''neurologist''"
  "str_lower ''ent'' = ''ent''"
  "str_lower ''ear'' = ''ear''"
  "str_lower ''pediatrician'' = ''pediatrician''"
  by code_simp+

lemma contains_lower_iff:
  assumes "str_lower kw = kw"
  shows "str_contains (str_lower reply) kw \<longleftrightarrow> occurs_ignoring_case kw reply"
proof
  assume "str_contains (str_lower reply) kw"
  then obtain ps ss where eq: "map lower_char reply = ps @ kw @ ss"
    by (auto simp: str_contains_def str_lower_def sublist_def)
  then obtain b r where r: "reply = b @ r" "map lower_char b = ps" "map lower_char r = kw @ ss"
    by (metis map_eq_append_conv)
  then obtain p a where p: "r = p @ a" "map lower_char p = kw"
    by (metis map_eq_append_conv)
  have "same_ignoring_case p kw"
    using p assms by (simp add: same_ignoring_case_def str_lower_def)
  with r p show "occurs_ignoring_case kw reply"
    unfolding occurs_ignoring_case_def by blast
next
  assume "occurs_ignoring_case kw reply"
  then obtain b p a where "reply = b @ p @ a" "str_lower p = str_lower kw"
    by (auto simp: occurs_ignoring_case_def same_ignoring_case_def)
  with assms have "str_lower reply = str_lower b @ kw @ str_lower a"
    by (simp add: str_lower_def)
  then show "str_contains (str_lower reply) kw"
    by (simp add: str_contains_def)
qed

lemma doctor_type_refines:
  "doctor_type_of reply = first_match keyword_table reply"
  by (simp add: doctor_type_of_def keyword_table_def contains_lower_iff lower_keywords)

lemma find_doctor_doctor_type:
  assumes "find_doctor http_str float_of env generate_content inp = (Inr r, calls)"
  shows "doctor_type r = doctor_type_of (recommendation r)
       \<and> (\<exists>response2. reply_to generate_content (calls ! 1) = Some response2
             \<and> resp_text response2 = Some (recommendation r))"
  using assms
  by (auto simp: find_doctor_def find_doctor_try_def reply_to_def Let_def
        split: if_splits sum.splits option.splits prod.splits)

lemma doctor_type_of_ent:
  assumes "\<not> occurs_ignoring_case ''cardiologist'' reply"
    and "\<not> occurs_ignoring_case ''dermatologist'' reply"
    and "\<not> occurs_ignoring_case ''orthopedic'' reply"
    and "\<not> occurs_ignoring_case ''neurologist'' reply"
    and "str_contains reply ''ent''"
  shows "doctor_type_of reply = ''ENT Specialist''"
proof -
  have "sublist (map lower_char ''ent'') (map lower_char reply)"
    using assms(5) unfolding str_contains_def by (rule map_mono_sublist)
  then have "str_contains (str_lower reply) ''ent''"
    using lower_keywords(5) unfolding str_contains_def str_lower_def by metis
  with assms(1-4) show ?thesis
    by (simp add: doctor_type_of_def contains_lower_iff [symmetric] lower_keywords)
qed

lemma example_run_reply:
  "find_doctor example_http_str example_float_of example_env
     (example_script (Inr example_extraction)
        (Inr (example_reply ''Doctor Type: CARDIOlogist or Dermatologist''))
        (Inr example_no_grounding)) ''chest pain in New Delhi''
   = (Inr (example_result ''Cardiologist'' ''Doctor Type: CARDIOlogist or Dermatologist''),
      snd (find_doctor example_http_str example_float_of example_env
        (example_script (Inr example_extraction)
           (Inr (example_reply ''Doctor Type: CARDIOlogist or Dermatologist''))
           (Inr example_no_grounding)) ''chest pain in New Delhi''))"
  "find_doctor example_http_str example_float_of example_env
     (example_script (Inr example_extraction) (Inr (example_reply ''See a doctor''))
        (Inr example_no_grounding)) ''chest pain in New Delhi''
   = (Inr (example_result ''General Physician'' ''See a doctor''),
      snd (find_doctor example_http_str example_float_of example_env
        (example_script (Inr example_extraction) (Inr (example_reply ''See a doctor''))
           (Inr example_no_grounding)) ''chest pain in New Delhi''))"
  "find_doctor example_http_str example_float_of example_env
     (example_script (Inr example_extraction)
        (Inr (example_reply ''Doctor Type: Pediatrician. The patient needs treatment''))
        (Inr example_no_grounding)) ''chest pain in New Delhi''
   = (Inr (example_result ''ENT Specialist''
             ''Doctor Type: Pediatrician. The patient needs treatment''),
      snd (find_doctor example_http_str example_float_of example_env
        (example_script (Inr example_extraction)
           (Inr (example_reply ''Doctor Type: Pediatrician. The patient needs treatment''))
           (Inr example_no_grounding)) ''chest pain in New Delhi''))"
  by code_simp+

text \<open>Claim C2. For every recommendation reply, the doctor type that the chain of keyword
  tests derives is the specialty of the first entry of the ordered keyword list
  (cardiologist, dermatologist, orthopedic, neurologist, ent or ear, pediatrician) one of
  whose keywords occurs in the reply up to the case of its letters, and
  \<open>General Physician\<close> when no keyword occurs. For every successful call of
  \<open>find_doctor\<close>, the \<open>recommendation\<close> of the response is the text of the reply to the
  second outbound call, and the \<open>doctor_type\<close> of the response is that first match on it;
  so a reply in which \<open>cardiologist\<close> occurs in any case gives \<open>Cardiologist\<close>, and a reply
  with no keyword gives \<open>General Physician\<close>.\<close>

theorem C2_doctor_type_first_keyword:
  "doctor_type_of reply = first_match keyword_table reply
   \<and> (find_doctor http_str float_of env generate_content inp = (Inr r, calls) \<longrightarrow>
        (\<exists>response2. reply_to generate_content (calls ! 1) = Some response2
           \<and> resp_text response2 = Some (recommendation r))
        \<and> doctor_type r = first_match keyword_table (recommendation r)
        \<and> (occurs_ignoring_case ''cardiologist'' (recommendation r)
             \<longrightarrow> doctor_type r = ''Cardiologist'')
        \<and> ((\<forall>kw \<in> set (concat (map fst keyword_table)).
                \<not> occurs_ignoring_case kw (recommendation r))
             \<longrightarrow> doctor_type r = ''General Physician''))"
proof (intro conjI impI)
  show "doctor_type_of reply = first_match keyword_table reply"
    by (rule doctor_type_refines)
next
  assume ok: "find_doctor http_str float_of env generate_content inp = (Inr r, calls)"
  note link = find_doctor_doctor_type [OF ok]
  from link show "\<exists>response2. reply_to generate_content (calls ! 1) = Some response2
           \<and> resp_text response2 = Some (recommendation r)"
    by blast
  from link have dt: "doctor_type r = doctor_type_of (recommendation r)"
    by blast
  then show "doctor_type r = first_match keyword_table (recommendation r)"
    by (simp add: doctor_type_refines)
  show "doctor_type r = ''Cardiologist''"
    if "occurs_ignoring_case ''cardiologist'' (recommendation r)"
    using that dt
    by (simp add: doctor_type_of_def contains_lower_iff lower_keywords)
  show "doctor_type r = ''General Physician''"
    if "\<forall>kw \<in> set (concat (map fst keyword_table)).
          \<not> occurs_ignoring_case kw (recommendation r)"
    using that dt
    by (simp add: doctor_type_of_def keyword_table_def contains_lower_iff lower_keywords)
qed

theorem C2_doctor_type_first_keyword_witness:
  "fst (find_doctor example_http_str example_float_of example_env
     (example_script (Inr example_extraction)
        (Inr (example_reply ''Doctor Type: CARDIOlogist or Dermatologist''))
        (Inr example_no_grounding)) ''chest pain in New Delhi'')
     = Inr (example_result ''Cardiologist'' ''Doctor Type: CARDIOlogist or Dermatologist'')
   \<and> occurs_ignoring_case ''cardiologist'' ''Doctor Type: CARDIOlogist or Dermatologist''
   \<and> first_match keyword_table ''Doctor Type: CARDIOlogist or Dermatologist'' = ''Cardiologist''
   \<and> fst (find_doctor example_http_str example_float_of example_env
     (example_script (Inr example_extraction) (Inr (example_reply ''See a doctor''))
        (Inr example_no_grounding)) ''chest pain in New Delhi'')
     = Inr (example_result ''General Physician'' ''See a doctor'')
   \<and> \<not> occurs_ignoring_case ''cardiologist'' ''See a doctor''
   \<and> \<not> occurs_ignoring_case ''dermatologist'' ''See a doctor''
   \<and> \<not> occurs_ignoring_case ''orthopedic'' ''See a doctor''
   \<and> \<not> occurs_ignoring_case ''neurologist'' ''See a doctor''
   \<and> \<not> occurs_ignoring_case ''ent'' ''See a doctor''
   \<and> \<not> occurs_ignoring_case ''ear'' ''See a doctor''
   \<and> \<not> occurs_ignoring_case ''pediatrician'' ''See a doctor''
   \<and> first_match keyword_table ''See a doctor'' = ''General Physician''"
proof -
  let ?A = "''Doctor Type: CARDIOlogist or Dermatologist''"
  let ?B = "''See a doctor''"
  have rA: "recommendation (example_result ''Cardiologist'' ?A) = ?A"
    and dA: "doctor_type (example_result ''Cardiologist'' ?A) = ''Cardiologist''"
    and rB: "recommendation (example_result ''General Physician'' ?B) = ?B"
    and dB: "doctor_type (example_result ''General Physician'' ?B) = ''General Physician''"
    by (simp_all add: example_result_def)
  have a: "occurs_ignoring_case ''cardiologist'' ?A"
    unfolding contains_lower_iff [OF lower_keywords(1), symmetric] by code_simp
  have b: "\<forall>kw \<in> set (concat (map fst keyword_table)). \<not> occurs_ignoring_case kw ?B"
    unfolding keyword_table_def
    by (simp add: contains_lower_iff [symmetric] lower_keywords) code_simp
  have b': "\<not> occurs_ignoring_case ''cardiologist'' ?B
      \<and> \<not> occurs_ignoring_case ''dermatologist'' ?B
      \<and> \<not> occurs_ignoring_case ''orthopedic'' ?B
      \<and> \<not> occurs_ignoring_case ''neurologist'' ?B
      \<and> \<not> occurs_ignoring_case ''ent'' ?B
      \<and> \<not> occurs_ignoring_case ''ear'' ?B
      \<and> \<not> occurs_ignoring_case ''pediatrician'' ?B"
    using b by (simp add: keyword_table_def)
  note tA = C2_doctor_type_first_keyword [THEN conjunct2, THEN mp, OF example_run_reply(1)]
  note tB = C2_doctor_type_first_keyword [THEN conjunct2, THEN mp, OF example_run_reply(2)]
  have fA: "first_match keyword_table ?A = ''Cardiologist''"
    using tA a unfolding rA dA by metis
  have fB: "first_match keyword_table ?B = ''General Physician''"
    using tB b unfolding rB dB by metis
  have gA: "fst (find_doctor example_http_str example_float_of example_env
     (example_script (Inr example_extraction) (Inr (example_reply ?A))
        (Inr example_no_grounding)) ''chest pain in New Delhi'')
     = Inr (example_result ''Cardiologist'' ?A)"
    by (subst example_run_reply(1)) simp
  have gB: "fst (find_doctor example_http_str example_float_of example_env
     (example_script (Inr example_extraction) (Inr (example_reply ?B))
        (Inr example_no_grounding)) ''chest pain in New Delhi'')
     = Inr (example_result ''General Physician'' ?B)"
    by (subst example_run_reply(2)) simp
  from gA a fA gB b' fB show ?thesis by blast
qed

text \<open>Claim C9. For every successful call of \<open>find_doctor\<close> whose recommendation reply has
  none of cardiologist, dermatologist, orthopedic and neurologist occurring in it (in any
  case) and contains \<open>ent\<close>, be it inside a longer word such as \<open>patient\<close> or
  \<open>treatment\<close>, the \<open>doctor_type\<close> of the response is \<open>ENT Specialist\<close>: the test is a bare
  substring test.\<close>

theorem C9_ent_inside_longer_word:
  assumes "find_doctor http_str float_of env generate_content inp = (Inr r, calls)"
    and "\<not> occurs_ignoring_case ''cardiologist'' (recommendation r)"
    and "\<not> occurs_ignoring_case ''dermatologist'' (recommendation r)"
    and "\<not> occurs_ignoring_case ''orthopedic'' (recommendation r)"
    and "\<not> occurs_ignoring_case ''neurologist'' (recommendation r)"
    and "str_contains (recommendation r) ''ent''"
  shows "doctor_type r = ''ENT Specialist''
       \<and> (\<exists>response2. reply_to generate_content (calls ! 1) = Some response2
             \<and> resp_text response2 = Some (recommendation r))"
  using find_doctor_doctor_type [OF assms(1)] doctor_type_of_ent [OF assms(2-6)]
  by simp

theorem C9_ent_inside_longer_word_witness:
  "fst (find_doctor example_http_str example_float_of example_env
     (example_script (Inr example_extraction)
        (Inr (example_reply ''Doctor Type: Pediatrician. The patient needs treatment''))
        (Inr example_no_grounding)) ''chest pain in New Delhi'')
     = Inr (example_result ''ENT Specialist''
              ''Doctor Type: Pediatrician. The patient needs treatment'')
   \<and> \<not> occurs_ignoring_case ''cardiologist'' ''Doctor Type: Pediatrician. The patient needs treatment''
   \<and> \<not> occurs_ignoring_case ''dermatologist'' ''Doctor Type: Pediatrician. The patient needs treatment''
   \<and> \<not> occurs_ignoring_case ''orthopedic'' ''Doctor Type: Pediatrician. The patient needs treatment''
   \<and> \<not> occurs_ignoring_case ''neurologist'' ''Doctor Type: Pediatrician. The patient needs treatment''
   \<and> str_contains ''Doctor Type: Pediatrician. The patient needs treatment'' ''ent''
   \<and> doctor_type (example_result ''ENT Specialist''
         ''Doctor Type: Pediatrician. The patient needs treatment'') = ''ENT Specialist''"
proof -
  let ?C = "''Doctor Type: Pediatrician. The patient needs treatment''"
  have rC: "recommendation (example_result ''ENT Specialist'' ?C) = ?C"
    by (simp add: example_result_def)
  have a: "\<not> occurs_ignoring_case ''cardiologist'' ?C"
    unfolding contains_lower_iff [OF lower_keywords(1), symmetric] by code_simp
  have b: "\<not> occurs_ignoring_case ''dermatologist'' ?C"
    unfolding contains_lower_iff [OF lower_keywords(2), symmetric] by code_simp
  have c: "\<not> occurs_ignoring_case ''orthopedic'' ?C"
    unfolding contains_lower_iff [OF lower_keywords(3), symmetric] by code_simp
  have d: "\<not> occurs_ignoring_case ''neurologist'' ?C"
    unfolding contains_lower_iff [OF lower_keywords(4), symmetric] by code_simp
  have e: "str_contains ?C ''ent''"
    by code_simp
  have a': "\<not> occurs_ignoring_case ''cardiologist''
      (recommendation (example_result ''ENT Specialist'' ?C))"
    unfolding rC by (rule a)
  have b': "\<not> occurs_ignoring_case ''dermatologist''
      (recommendation (example_result ''ENT Specialist'' ?C))"
    unfolding rC by (rule b)
  have c': "\<not> occurs_ignoring_case ''orthopedic''
      (recommendation (example_result ''ENT Specialist'' ?C))"
    unfolding rC by (rule c)
  have d': "\<not> occurs_ignoring_case ''neurologist''
      (recommendation (example_result ''ENT Specialist'' ?C))"
    unfolding rC by (rule d)
  have e': "str_contains (recommendation (example_result ''ENT Specialist'' ?C)) ''ent''"
    unfolding rC by (rule e)
  note t = C9_ent_inside_longer_word [OF example_run_reply(3) a' b' c' d' e', THEN conjunct1]
  have g: "fst (find_doctor example_http_str example_float_of example_env
     (example_script (Inr example_extraction) (Inr (example_reply ?C))
        (Inr example_no_grounding)) ''chest pain in New Delhi'')
     = Inr (example_result ''ENT Specialist'' ?C)"
    by (subst example_run_reply(3)) simp
  from g a b c d e t show ?thesis by blast
qed

section \<open>Properties of the extraction loop\<close>

lemma last_or_Cons: "last_or d (x # xs) = last_or x xs"
  by (simp add: last_or_def)

lemma last_or_Nil: "last_or d [] = d"
  by (simp add: last_or_def)

lemma labels_exclusive:
  "str_startswith l ''SYMPTOMS:'' \<Longrightarrow> \<not> str_startswith l ''LOCATION:''"
  "str_startswith l ''SYMPTOMS:'' \<Longrightarrow> \<not> str_startswith l ''LATITUDE:''"
  "str_startswith l ''SYMPTOMS:'' \<Longrightarrow> \<not> str_startswith l ''LONGITUDE:''"
  "str_startswith l ''LOCATION:'' \<Longrightarrow> \<not> str_startswith l ''LATITUDE:''"
  "str_startswith l ''LOCATION:'' \<Longrightarrow> \<not> str_startswith l ''LONGITUDE:''"
  "str_startswith l ''LATITUDE:'' \<Longrightarrow> \<not> str_startswith l ''LONGITUDE:''"
  by (auto simp: str_startswith_def prefix_def)

lemma parse_line_symptoms:
  "symptoms (parse_line f raw st) =
     (if str_startswith (str_strip raw) ''SYMPTOMS:''
      then label_value ''SYMPTOMS:'' (str_strip raw) else symptoms st)"
  by (simp add: parse_line_def Let_def label_value_def split: option.split)

lemma parse_line_location:
  "location (parse_line f raw st) =
     (if str_startswith (str_strip raw) ''LOCATION:''
      then label_value ''LOCATION:'' (str_strip raw) else location st)"
  using labels_exclusive(1)[of "str_strip raw"]
  by (auto simp add: parse_line_def Let_def label_value_def split: option.split)

lemma parse_line_latitude:
  "latitude (parse_line f raw st) =
     (case (if str_startswith (str_strip raw) ''LATITUDE:''
            then f (label_value ''LATITUDE:'' (str_strip raw)) else None) of
        None \<Rightarrow> latitude st | Some v \<Rightarrow> v)"
  using labels_exclusive(2,4)[of "str_strip raw"]
  by (auto simp add: parse_line_def Let_def label_value_def split: option.split)

lemma parse_line_longitude:
  "longitude (parse_line f raw st) =
     (case (if str_startswith (str_strip raw) ''LONGITUDE:''
            then f (label_value ''LONGITUDE:'' (str_strip raw)) else None) of
        None \<Rightarrow> longitude st | Some v \<Rightarrow> v)"
  using labels_exclusive(3,5,6)[of "str_strip raw"]
  by (auto simp add: parse_line_def Let_def label_value_def split: option.split)

lemma fold_symptoms:
  "symptoms (fold (parse_line f) raws st) =
     last_or (symptoms st) (text_values ''SYMPTOMS:'' (map str_strip raws))"
proof (induction raws arbitrary: st)
  case Nil
  show ?case by (simp add: text_values_def last_or_Nil)
next
  case (Cons raw raws)
  show ?case
    by (simp add: Cons.IH parse_line_symptoms text_values_def last_or_Cons)
qed

lemma fold_location:
  "location (fold (parse_line f) raws st) =
     last_or (location st) (text_values ''LOCATION:'' (map str_strip raws))"
proof (induction raws arbitrary: st)
  case Nil
  show ?case by (simp add: text_values_def last_or_Nil)
next
  case (Cons raw raws)
  show ?case
    by (simp add: Cons.IH parse_line_location text_values_def last_or_Cons)
qed

lemma fold_latitude:
  "latitude (fold (parse_line f) raws st) =
     last_or (latitude st) (float_values f ''LATITUDE:'' (map str_strip raws))"
proof (induction raws arbitrary: st)
  case Nil
  show ?case by (simp add: float_values_def last_or_Nil List.map_filter_simps)
next
  case (Cons raw raws)
  show ?case
    by (simp add: Cons.IH parse_line_latitude float_values_def last_or_Cons
          List.map_filter_simps split: option.split)
qed

lemma fold_longitude:
  "longitude (fold (parse_line f) raws st) =
     last_or (longitude st) (float_values f ''LONGITUDE:'' (map str_strip raws))"
proof (induction raws arbitrary: st)
  case Nil
  show ?case by (simp add: float_values_def last_or_Nil List.map_filter_simps)
next
  case (Cons raw raws)
  show ?case
    by (simp add: Cons.IH parse_line_longitude float_values_def last_or_Cons
          List.map_filter_simps split: option.split)
qed

lemma parse_extraction_fields:
  "symptoms (parse_extraction f t) =
     last_or ''General symptoms'' (text_values ''SYMPTOMS:'' (stripped_lines t))"
  "location (parse_extraction f t) =
     last_or ''Mumbai'' (text_values ''LOCATION:'' (stripped_lines t))"
  "latitude (parse_extraction f t) =
     last_or (Finite 19.0760) (float_values f ''LATITUDE:'' (stripped_lines t))"
  "longitude (parse_extraction f t) =
     last_or (Finite 72.8777) (float_values f ''LONGITUDE:'' (stripped_lines t))"
  by (simp_all add: parse_extraction_def stripped_lines_def defaults_def
        fold_symptoms fold_location fold_latitude fold_longitude)

lemma text_values_Nil:
  "\<forall>l \<in> set ls. \<not> str_startswith l label \<Longrightarrow> text_values label ls = []"
  by (simp add: text_values_def filter_empty_conv)

lemma float_values_Nil:
  "\<forall>l \<in> set ls. str_startswith l label \<longrightarrow> f (label_value label l) = None
     \<Longrightarrow> float_values f label ls = []"
  by (induction ls) (simp_all add: float_values_def List.map_filter_simps)

text \<open>Claim C3. For every extraction reply, the loop looks at the stripped lines for the
  labels \<open>SYMPTOMS:\<close>, \<open>LOCATION:\<close>, \<open>LATITUDE:\<close> and \<open>LONGITUDE:\<close>, compared character by
  character (so case-sensitively), and each field is what the last line with its label
  assigns: the rest of the line for symptoms and location, the parsed number for latitude
  and longitude, whatever that value is (nothing validates it). Where no line has the
  label, or where no latitude or longitude line carries a value that \<open>float\<close> accepts, the
  field keeps its default: \<open>General symptoms\<close>, \<open>Mumbai\<close>, 19.0760 and 72.8777.\<close>

theorem C3_extraction_defaults:
  "symptoms (parse_extraction float_of t) =
     last_or ''General symptoms'' (text_values ''SYMPTOMS:'' (stripped_lines t))
   \<and> location (parse_extraction float_of t) =
     last_or ''Mumbai'' (text_values ''LOCATION:'' (stripped_lines t))
   \<and> latitude (parse_extraction float_of t) =
     last_or (Finite 19.0760) (float_values float_of ''LATITUDE:'' (stripped_lines t))
   \<and> longitude (parse_extraction float_of t) =
     last_or (Finite 72.8777) (float_values float_of ''LONGITUDE:'' (stripped_lines t))
   \<and> ((\<forall>l \<in> set (stripped_lines t). \<not> str_startswith l ''SYMPTOMS:'')
        \<longrightarrow> symptoms (parse_extraction float_of t) = ''General symptoms'')
   \<and> ((\<forall>l \<in> set (stripped_lines t). \<not> str_startswith l ''LOCATION:'')
        \<longrightarrow> location (parse_extraction float_of t) = ''Mumbai'')
   \<and> ((\<forall>l \<in> set (stripped_lines t). str_startswith l ''LATITUDE:''
           \<longrightarrow> float_of (label_value ''LATITUDE:'' l) = None)
        \<longrightarrow> latitude (parse_extraction float_of t) = Finite 19.0760)
   \<and> ((\<forall>l \<in> set (stripped_lines t). str_startswith l ''LONGITUDE:''
           \<longrightarrow> float_of (label_value ''LONGITUDE:'' l) = None)
        \<longrightarrow> longitude (parse_extraction float_of t) = Finite 72.8777)"
  by (simp add: parse_extraction_fields text_values_Nil float_values_Nil last_or_Nil)

theorem C3_extraction_defaults_witness:
  "stripped_lines ''symptoms: cough\<newline>  LATITUDE: north  \<newline>Place: Pune''
     = [''symptoms: cough'', ''LATITUDE: north'', ''Place: Pune'']
   \<and> (\<lambda>s. if s = ''18.52'' then Some (Finite 18.52) else None)
        (label_value ''LATITUDE:'' ''LATITUDE: north'') = None
   \<and> parse_extraction (\<lambda>s. if s = ''18.52'' then Some (Finite 18.52) else None)
        ''symptoms: cough\<newline>  LATITUDE: north  \<newline>Place: Pune'' = defaults
   \<and> parse_extraction (\<lambda>s. if s = ''999'' then Some (Finite 999) else None)
        ''  SYMPTOMS:\<newline>LOCATION: LOCATION: x \<newline>LATITUDE: 999\<newline>LATITUDE: abc''
      = \<lparr>symptoms = [], location = ''x'', latitude = Finite 999, longitude = Finite 72.8777\<rparr>"
proof -
  let ?f1 = "\<lambda>s. if s = ''18.52'' then Some (Finite 18.52) else None"
  let ?t1 = "''symptoms: cough\<newline>  LATITUDE: north  \<newline>Place: Pune''"
  let ?f2 = "\<lambda>s. if s = ''999'' then Some (Finite 999) else None"
  let ?t2 = "''  SYMPTOMS:\<newline>LOCATION: LOCATION: x \<newline>LATITUDE: 999\<newline>LATITUDE: abc''"
  have l1: "stripped_lines ?t1 = [''symptoms: cough'', ''LATITUDE: north'', ''Place: Pune'']"
    by code_simp
  have v1: "label_value ''LATITUDE:'' ''LATITUDE: north'' = ''north''"
    by code_simp
  have s1: "\<not> str_startswith ''symptoms: cough'' ''SYMPTOMS:''"
    "\<not> str_startswith ''LATITUDE: north'' ''SYMPTOMS:''"
    "\<not> str_startswith ''Place: Pune'' ''SYMPTOMS:''"
    "\<not> str_startswith ''symptoms: cough'' ''LOCATION:''"
    "\<not> str_startswith ''LATITUDE: north'' ''LOCATION:''"
    "\<not> str_startswith ''Place: Pune'' ''LOCATION:''"
    "\<not> str_startswith ''symptoms: cough'' ''LATITUDE:''"
    "\<not> str_startswith ''Place: Pune'' ''LATITUDE:''"
    "\<not> str_startswith ''symptoms: cough'' ''LONGITUDE:''"
    "\<not> str_startswith ''LATITUDE: north'' ''LONGITUDE:''"
    "\<not> str_startswith ''Place: Pune'' ''LONGITUDE:''"
    by code_simp+
  have h1: "\<forall>l \<in> set (stripped_lines ?t1). \<not> str_startswith l ''SYMPTOMS:''"
    and h2: "\<forall>l \<in> set (stripped_lines ?t1). \<not> str_startswith l ''LOCATION:''"
    and h3: "\<forall>l \<in> set (stripped_lines ?t1). str_startswith l ''LATITUDE:''
               \<longrightarrow> ?f1 (label_value ''LATITUDE:'' l) = None"
    and h4: "\<forall>l \<in> set (stripped_lines ?t1). str_startswith l ''LONGITUDE:''
               \<longrightarrow> ?f1 (label_value ''LONGITUDE:'' l) = None"
    unfolding l1 using s1 v1 by simp_all
  note c1 = C3_extraction_defaults [of ?f1 ?t1]
  have d1: "symptoms (parse_extraction ?f1 ?t1) = ''General symptoms''"
    "location (parse_extraction ?f1 ?t1) = ''Mumbai''"
    "latitude (parse_extraction ?f1 ?t1) = Finite 19.0760"
    "longitude (parse_extraction ?f1 ?t1) = Finite 72.8777"
    using c1 h1 h2 h3 h4 by blast+
  have e1: "parse_extraction ?f1 ?t1 = defaults"
    by (rule extracted.equality) (simp_all add: d1 defaults_def)
  have l2: "stripped_lines ?t2 = [''SYMPTOMS:'', ''LOCATION: LOCATION: x'', ''LATITUDE: 999'', ''LATITUDE: abc'']"
    by code_simp
  have v2: "label_value ''SYMPTOMS:'' ''SYMPTOMS:'' = []"
    "label_value ''LOCATION:'' ''LOCATION: LOCATION: x'' = ''x''"
    "label_value ''LATITUDE:'' ''LATITUDE: 999'' = ''999''"
    "label_value ''LATITUDE:'' ''LATITUDE: abc'' = ''abc''"
    by code_simp+
  have s2: "text_values ''SYMPTOMS:'' (stripped_lines ?t2) = [[]]"
    "text_values ''LOCATION:'' (stripped_lines ?t2) = [''x'']"
    unfolding l2 text_values_def by (simp_all add: str_startswith_def v2)
  have f2: "float_values ?f2 ''LATITUDE:'' (stripped_lines ?t2) = [Finite 999]"
    "float_values ?f2 ''LONGITUDE:'' (stripped_lines ?t2) = []"
    unfolding l2 float_values_def
    by (simp_all add: str_startswith_def v2 List.map_filter_simps)
  note c2 = C3_extraction_defaults [of ?f2 ?t2]
  have d2: "symptoms (parse_extraction ?f2 ?t2) = []"
    "location (parse_extraction ?f2 ?t2) = ''x''"
    "latitude (parse_extraction ?f2 ?t2) = Finite 999"
    "longitude (parse_extraction ?f2 ?t2) = Finite 72.8777"
    using c2 by (simp_all add: s2 f2 last_or_def)
  have e2: "parse_extraction ?f2 ?t2
      = \<lparr>symptoms = [], location = ''x'', latitude = Finite 999, longitude = Finite 72.8777\<rparr>"
    by (rule extracted.equality) (simp_all add: d2)
  have g1: "?f1 (label_value ''LATITUDE:'' ''LATITUDE: north'') = None"
    by (simp add: v1)
  show ?thesis
    using l1 g1 e1 e2 by blast
qed

section \<open>Properties of the nearby doctors\<close>

lemma grounded_doctors_looped:
  "grounded_doctors loc maps_response = concat (map (doctor_info loc) (looped_chunks maps_response))"
  by (simp add: grounded_doctors_def looped_chunks_def
        split: attr.split option.split list.split)

lemma length_looped_chunks: "length (looped_chunks maps_response) \<le> 5"
  by (simp add: looped_chunks_def split: attr.split option.split list.split)

lemma length_doctor_info: "length (doctor_info loc chunk) \<le> 1"
  by (simp add: doctor_info_def split: attr.split option.split)

lemma length_concat_le:
  "(\<And>x. length (f x) \<le> 1) \<Longrightarrow> length (concat (map f xs)) \<le> length xs"
proof (induction xs)
  case Nil
  show ?case by simp
next
  case (Cons x xs)
  have "length (f x) \<le> 1" by (rule Cons.prems)
  moreover have "length (concat (map f xs)) \<le> length xs"
    using Cons.IH Cons.prems by blast
  ultimately show ?case by simp
qed

lemma length_grounded_doctors: "length (grounded_doctors loc maps_response) \<le> 5"
proof -
  have "length (grounded_doctors loc maps_response) \<le> length (looped_chunks maps_response)"
    unfolding grounded_doctors_looped by (rule length_concat_le) (rule length_doctor_info)
  with length_looped_chunks [of maps_response] show ?thesis by linarith
qed

lemma replace_from_space: "replace_from '' '' ''+'' s = plus_for_space s"
proof (induction s)
  case Nil
  show ?case by (simp add: plus_for_space_def)
next
  case (Cons c cs)
  show ?case
  proof (cases "c = CHR '' ''")
    case True
    then show ?thesis using Cons.IH by (simp add: plus_for_space_def)
  next
    case False
    then show ?thesis using Cons.IH by (simp add: plus_for_space_def)
  qed
qed

lemma replace_space: "str_replace '' '' ''+'' s = plus_for_space s"
  by (simp add: str_replace_def replace_from_space)

lemma find_doctor_success:
  assumes "find_doctor http_str float_of env generate_content inp = (Inr r, calls)"
  shows "\<exists>maps_response. reply_to generate_content (last calls) = Some maps_response
           \<and> nearby_doctors r = nearby_doctors_of (doctor_type r) (resp_location r) maps_response"
  using assms
  by (auto simp: find_doctor_def find_doctor_try_def reply_to_def Let_def
        split: if_splits sum.splits option.splits prod.splits)

lemma doctor_info_entry:
  assumes "d \<in> set (doctor_info loc chunk)"
  shows "\<exists>m. maps chunk = Attr (Some m)
           \<and> name d = (case title m of Attr t \<Rightarrow> t | NoAttr \<Rightarrow> Some ''Medical Center'')
           \<and> url d = (case uri m of Attr u \<Rightarrow> u | NoAttr \<Rightarrow> Some [])
           \<and> address d = loc \<and> distance d = ''See Google Maps'' \<and> rating d = 4.5
           \<and> open d = ''See Google Maps for hours''"
proof (cases "maps chunk")
  case NoAttr
  with assms show ?thesis by (simp add: doctor_info_def)
next
  case (Attr mo)
  show ?thesis
  proof (cases mo)
    case None
    with Attr assms show ?thesis by (simp add: doctor_info_def)
  next
    case (Some m)
    with Attr assms have "maps chunk = Attr (Some m)"
      and "d = \<lparr>name = (case title m of Attr t \<Rightarrow> t | NoAttr \<Rightarrow> Some ''Medical Center''),
            address = loc, distance = ''See Google Maps'', rating = 4.5,
            open = ''See Google Maps for hours'',
            url = (case uri m of Attr u \<Rightarrow> u | NoAttr \<Rightarrow> Some [])\<rparr>"
      by (simp_all add: doctor_info_def)
    then show ?thesis by (intro exI [of _ m]) simp
  qed
qed

lemma example_run_no_grounding:
  "find_doctor example_http_str example_float_of example_env
     (example_client example_no_grounding) ''chest pain in New Delhi''
   = (Inr (example_response
        [\<lparr>name = Some ''Search Cardiologist in New Delhi'', address = ''New Delhi'',
          distance = ''Click to search'', rating = 0, open = ''Search on Google Maps'',
          url = Some ''https://www.google.com/maps/search/Cardiologist+near+New+Delhi''\<rparr>]),
      snd (find_doctor example_http_str example_float_of example_env
        (example_client example_no_grounding) ''chest pain in New Delhi''))"
  by code_simp

lemma example_run_grounding:
  "find_doctor example_http_str example_float_of example_env
     (example_client example_grounding) ''chest pain in New Delhi''
   = (Inr (example_response
        [example_entry ''Heart Care'' ''https://maps.example/1'',
         example_entry ''City Clinic'' ''https://maps.example/3'',
         example_entry ''Apollo'' ''https://maps.example/4'',
         example_entry ''Max'' ''https://maps.example/5'']),
      snd (find_doctor example_http_str example_float_of example_env
        (example_client example_grounding) ''chest pain in New Delhi''))"
  by code_simp

lemma example_last_call:
  "reply_to (example_client m)
     (last (snd (find_doctor example_http_str example_float_of example_env
        (example_client m) ''chest pain in New Delhi''))) = Some m"
  by (simp add: find_doctor_def find_doctor_try_def Let_def example_client_def reply_to_def
        truthy_def GEMINI_API_KEY_def example_env_def str_startswith_def extraction_prompt_def
        recommendation_prompt_def split: sum.split option.split)

text \<open>Claim C4. For every successful call of \<open>find_doctor\<close> whose maps reply gives no
  grounded entry, \<open>nearby_doctors\<close> is exactly the one fallback entry, and its url is
  \<open>https://www.google.com/maps/search/\<close>, the doctor type, \<open>+near+\<close> and the location with
  every space replaced by \<open>+\<close>.\<close>

theorem C4_fallback_entry:
  assumes "find_doctor http_str float_of env generate_content inp = (Inr r, calls)"
    and "reply_to generate_content (last calls) = Some maps_response"
    and "grounded_doctors (resp_location r) maps_response = []"
  shows "nearby_doctors r = [fallback_entry (doctor_type r) (resp_location r)]
       \<and> url (fallback_entry (doctor_type r) (resp_location r))
           = Some (''https://www.google.com/maps/search/'' @ doctor_type r @ ''+near+''
                   @ plus_for_space (resp_location r))"
proof -
  from find_doctor_success [OF assms(1)] assms(2)
  have "nearby_doctors r = nearby_doctors_of (doctor_type r) (resp_location r) maps_response"
    by auto
  with assms(3) have "nearby_doctors r = [fallback_entry (doctor_type r) (resp_location r)]"
    by (simp add: nearby_doctors_of_def)
  then show ?thesis
    by (simp add: fallback_entry_def search_url_def replace_space)
qed

theorem C4_fallback_entry_witness:
  "grounded_doctors ''New Delhi'' example_no_grounding = []
   \<and> nearby_doctors (example_response
        [\<lparr>name = Some ''Search Cardiologist in New Delhi'', address = ''New Delhi'',
          distance = ''Click to search'', rating = 0, open = ''Search on Google Maps'',
          url = Some ''https://www.google.com/maps/search/Cardiologist+near+New+Delhi''\<rparr>])
      = [fallback_entry ''Cardiologist'' ''New Delhi'']
   \<and> url (fallback_entry ''Cardiologist'' ''New Delhi'')
      = Some ''https://www.google.com/maps/search/Cardiologist+near+New+Delhi''"
proof -
  have g: "grounded_doctors ''New Delhi'' example_no_grounding = []"
    by (simp add: grounded_doctors_def example_no_grounding_def)
  have g': "grounded_doctors (resp_location (example_response
        [\<lparr>name = Some ''Search Cardiologist in New Delhi'', address = ''New Delhi'',
          distance = ''Click to search'', rating = 0, open = ''Search on Google Maps'',
          url = Some ''https://www.google.com/maps/search/Cardiologist+near+New+Delhi''\<rparr>]))
        example_no_grounding = []"
    using g by (simp add: example_response_def)
  have p: "plus_for_space ''New Delhi'' = ''New+Delhi''"
    by (simp add: plus_for_space_def)
  from C4_fallback_entry [OF example_run_no_grounding example_last_call g'] g p
  show ?thesis
    by (simp add: example_response_def)
qed

text \<open>Claim C8, as amended. For every successful call of \<open>find_doctor\<close> whose maps reply
  gives grounded entries, \<open>nearby_doctors\<close> is the list of those entries, at most 5 of
  them, each made from one of the first five grounding chunks that has a \<open>maps\<close> part: its
  name is the title of that part and its url the URI (\<open>Medical Center\<close> and the empty
  string where the part has no such attribute), its address is the extracted location of
  the request, and its distance, rating and hours are the fixed values
  \<open>See Google Maps\<close>, 4.5 and \<open>See Google Maps for hours\<close>.\<close>

theorem C8_grounded_entries:
  assumes "find_doctor http_str float_of env generate_content inp = (Inr r, calls)"
    and "reply_to generate_content (last calls) = Some maps_response"
    and "grounded_doctors (resp_location r) maps_response \<noteq> []"
  shows "nearby_doctors r = grounded_doctors (resp_location r) maps_response
       \<and> length (nearby_doctors r) \<le> 5
       \<and> (\<forall>d \<in> set (nearby_doctors r). \<exists>chunk \<in> set (looped_chunks maps_response). \<exists>m.
             maps chunk = Attr (Some m)
             \<and> name d = (case title m of Attr t \<Rightarrow> t | NoAttr \<Rightarrow> Some ''Medical Center'')
             \<and> url d = (case uri m of Attr u \<Rightarrow> u | NoAttr \<Rightarrow> Some [])
             \<and> address d = resp_location r
             \<and> distance d = ''See Google Maps''
             \<and> rating d = 4.5
             \<and> open d = ''See Google Maps for hours'')"
proof -
  from find_doctor_success [OF assms(1)] assms(2)
  have "nearby_doctors r = nearby_doctors_of (doctor_type r) (resp_location r) maps_response"
    by auto
  with assms(3) have eq: "nearby_doctors r = grounded_doctors (resp_location r) maps_response"
    by (simp add: nearby_doctors_of_def)
  have len: "length (nearby_doctors r) \<le> 5"
    unfolding eq by (rule length_grounded_doctors)
  have each: "\<exists>chunk \<in> set (looped_chunks maps_response). \<exists>m.
             maps chunk = Attr (Some m)
             \<and> name d = (case title m of Attr t \<Rightarrow> t | NoAttr \<Rightarrow> Some ''Medical Center'')
             \<and> url d = (case uri m of Attr u \<Rightarrow> u | NoAttr \<Rightarrow> Some [])
             \<and> address d = resp_location r
             \<and> distance d = ''See Google Maps''
             \<and> rating d = 4.5
             \<and> open d = ''See Google Maps for hours''"
    if "d \<in> set (nearby_doctors r)" for d
  proof -
    from that obtain chunk where c: "chunk \<in> set (looped_chunks maps_response)"
      and d: "d \<in> set (doctor_info (resp_location r) chunk)"
      unfolding eq grounded_doctors_looped by auto
    from doctor_info_entry [OF d] c show ?thesis by blast
  qed
  from eq len each show ?thesis by blast
qed

theorem C8_grounded_entries_witness:
  "grounded_doctors ''New Delhi'' example_grounding \<noteq> []
   \<and> grounded_doctors ''New Delhi'' example_grounding
      = [example_entry ''Heart Care'' ''https://maps.example/1'',
         example_entry ''City Clinic'' ''https://maps.example/3'',
         example_entry ''Apollo'' ''https://maps.example/4'',
         example_entry ''Max'' ''https://maps.example/5'']
   \<and> length (grounded_doctors ''New Delhi'' example_grounding) \<le> 5"
proof -
  let ?r = "example_response
        [example_entry ''Heart Care'' ''https://maps.example/1'',
         example_entry ''City Clinic'' ''https://maps.example/3'',
         example_entry ''Apollo'' ''https://maps.example/4'',
         example_entry ''Max'' ''https://maps.example/5'']"
  have loc: "resp_location ?r = ''New Delhi''"
    by (simp add: example_response_def)
  have g: "grounded_doctors ''New Delhi'' example_grounding \<noteq> []"
    by (simp add: grounded_doctors_def example_grounding_def doctor_info_def example_chunk_def)
  have g': "grounded_doctors (resp_location ?r) example_grounding \<noteq> []"
    unfolding loc by (rule g)
  note t = C8_grounded_entries [OF example_run_grounding example_last_call g']
  have eq: "nearby_doctors ?r = grounded_doctors ''New Delhi'' example_grounding"
    using t loc by metis
  have len: "length (nearby_doctors ?r) \<le> 5"
    using t by blast
  have n: "nearby_doctors ?r
      = [example_entry ''Heart Care'' ''https://maps.example/1'',
         example_entry ''City Clinic'' ''https://maps.example/3'',
         example_entry ''Apollo'' ''https://maps.example/4'',
         example_entry ''Max'' ''https://maps.example/5'']"
    by (simp add: example_response_def)
  from g eq len n show ?thesis by metis
qed

text \<open>The address of an extracted entry is not a constant of the code: with the same maps
  reply it is \<open>Pune\<close> for the location \<open>Pune\<close> and \<open>Delhi\<close> for the location \<open>Delhi\<close>.\<close>

theorem C8_address_counterexample:
  "address (hd (grounded_doctors ''Pune'' example_grounding)) = ''Pune''
   \<and> address (hd (grounded_doctors ''Delhi'' example_grounding)) = ''Delhi''"
  by (simp add: grounded_doctors_def example_grounding_def doctor_info_def example_chunk_def)

text \<open>Claim C10. For every successful response of \<open>find_doctor\<close>, \<open>nearby_doctors\<close> is not
  empty and has at most 5 entries: it is either the grounded entries of the maps reply,
  between 1 and 5 of them, or the single fallback entry.\<close>

theorem C10_nearby_doctors_count:
  assumes "find_doctor http_str float_of env generate_content inp = (Inr r, calls)"
  shows "nearby_doctors r \<noteq> []
       \<and> length (nearby_doctors r) \<le> 5
       \<and> (\<exists>maps_response. reply_to generate_content (last calls) = Some maps_response
            \<and> (nearby_doctors r = grounded_doctors (resp_location r) maps_response
                 \<and> 1 \<le> length (grounded_doctors (resp_location r) maps_response)
                 \<and> length (grounded_doctors (resp_location r) maps_response) \<le> 5
               \<or> nearby_doctors r = [fallback_entry (doctor_type r) (resp_location r)]
                 \<and> grounded_doctors (resp_location r) maps_response = []))"
proof -
  from find_doctor_success [OF assms] obtain maps_response
    where m: "reply_to generate_content (last calls) = Some maps_response"
      and n: "nearby_doctors r = nearby_doctors_of (doctor_type r) (resp_location r) maps_response"
    by blast
  show ?thesis
  proof (cases "grounded_doctors (resp_location r) maps_response = []")
    case True
    with n have "nearby_doctors r = [fallback_entry (doctor_type r) (resp_location r)]"
      by (simp add: nearby_doctors_of_def)
    with m True show ?thesis by auto
  next
    case False
    with n have eq: "nearby_doctors r = grounded_doctors (resp_location r) maps_response"
      by (simp add: nearby_doctors_of_def)
    have "length (grounded_doctors (resp_location r) maps_response) \<le> 5"
      by (rule length_grounded_doctors)
    moreover from False have "1 \<le> length (grounded_doctors (resp_location r) maps_response)"
      by (cases "grounded_doctors (resp_location r) maps_response") simp_all
    ultimately show ?thesis using m eq False by auto
  qed
qed

theorem C10_nearby_doctors_count_witness:
  "fst (find_doctor example_http_str example_float_of example_env
          (example_client example_grounding) ''chest pain in New Delhi'')
     = Inr (example_response
        [example_entry ''Heart Care'' ''https://maps.example/1'',
         example_entry ''City Clinic'' ''https://maps.example/3'',
         example_entry ''Apollo'' ''https://maps.example/4'',
         example_entry ''Max'' ''https://maps.example/5''])
   \<and> length (nearby_doctors (example_response
        [example_entry ''Heart Care'' ''https://maps.example/1'',
         example_entry ''City Clinic'' ''https://maps.example/3'',
         example_entry ''Apollo'' ''https://maps.example/4'',
         example_entry ''Max'' ''https://maps.example/5''])) \<le> 5
   \<and> nearby_doctors (example_response
        [example_entry ''Heart Care'' ''https://maps.example/1'',
         example_entry ''City Clinic'' ''https://maps.example/3'',
         example_entry ''Apollo'' ''https://maps.example/4'',
         example_entry ''Max'' ''https://maps.example/5'']) \<noteq> []"
proof -
  have "fst (find_doctor example_http_str example_float_of example_env
          (example_client example_grounding) ''chest pain in New Delhi'')
     = Inr (example_response
        [example_entry ''Heart Care'' ''https://maps.example/1'',
         example_entry ''City Clinic'' ''https://maps.example/3'',
         example_entry ''Apollo'' ''https://maps.example/4'',
         example_entry ''Max'' ''https://maps.example/5''])"
    by (subst example_run_grounding) simp
  with C10_nearby_doctors_count [OF example_run_grounding] show ?thesis
    by blast
qed

section \<open>Properties of the handlers\<close>

text \<open>Claim C7. For every call of \<open>GET /api/health\<close>, the booleans \<open>gemini_configured\<close> and
  \<open>sarvam_configured\<close> of the response say whether the environment gives the provider key
  a value (a key that is absent or empty counts as not set, as in the handlers' own key
  checks), and the handler makes no outbound call.\<close>

theorem C7_health_reports_keys:
  "gemini_configured (fst (health env)) = (\<exists>k. env ''GEMINI_API_KEY'' = Some k \<and> k \<noteq> [])
   \<and> sarvam_configured (fst (health env)) = (\<exists>k. env ''SARVAM_API_KEY'' = Some k \<and> k \<noteq> [])
   \<and> status (fst (health env)) = ''healthy''
   \<and> message (fst (health env)) = ''AayuCare POC API is running!''
   \<and> snd (health env) = []"
  by (simp add: health_def truthy_def GEMINI_API_KEY_def SARVAM_API_KEY_def split: option.split)

text \<open>Claim C5. When the Sarvam key is not configured, \<open>speech_to_text\<close> fails with status
  500 and its fixed message, and when the Gemini key is not configured, \<open>find_doctor\<close>
  fails with status 500 and its fixed message; in both cases no outbound call has been
  made.\<close>

theorem C5_missing_key_fails_first:
  "(\<not> truthy (SARVAM_API_KEY env) \<longrightarrow>
      speech_to_text http_str env post audio
        = (Inl (HTTPException 500
             ''Sarvam API key not configured. Please add SARVAM_API_KEY to .env file''), []))
   \<and> (\<not> truthy (GEMINI_API_KEY env) \<longrightarrow>
      find_doctor http_str float_of env generate_content inp
        = (Inl (HTTPException 500
             ''Gemini API key not configured. Please add GEMINI_API_KEY to .env file''), []))"
  by (simp add: speech_to_text_def find_doctor_def truthy_def split: option.split)

theorem C5_missing_key_fails_first_witness:
  "\<not> truthy (SARVAM_API_KEY [''SARVAM_API_KEY'' \<mapsto> []])
   \<and> speech_to_text example_http_str [''SARVAM_API_KEY'' \<mapsto> []] example_post_429 example_audio
        = (Inl (HTTPException 500
             ''Sarvam API key not configured. Please add SARVAM_API_KEY to .env file''), [])
   \<and> \<not> truthy (GEMINI_API_KEY Map.empty)
   \<and> find_doctor example_http_str example_float_of Map.empty
          (example_client example_grounding) ''chest pain in New Delhi''
        = (Inl (HTTPException 500
             ''Gemini API key not configured. Please add GEMINI_API_KEY to .env file''), [])"
proof -
  have a: "\<not> truthy (SARVAM_API_KEY [''SARVAM_API_KEY'' \<mapsto> []])"
    by (simp add: truthy_def SARVAM_API_KEY_def)
  have b: "\<not> truthy (GEMINI_API_KEY Map.empty)"
    by (simp add: truthy_def GEMINI_API_KEY_def)
  from a b
    C5_missing_key_fails_first [of "[''SARVAM_API_KEY'' \<mapsto> []]" example_http_str
      example_post_429 example_audio example_float_of "example_client example_grounding"
      "''chest pain in New Delhi''"]
    C5_missing_key_fails_first [of Map.empty example_http_str
      example_post_429 example_audio example_float_of "example_client example_grounding"
      "''chest pain in New Delhi''"]
  show ?thesis by blast
qed















text \<open>Claim C1. The claim is that a provider response with a status other than 200 makes
  \<open>speech_to_text\<close> fail with the provider's status. What the code does with a response of
  status 429 and body \<open>rate limit exceeded\<close>: the \<open>HTTPException\<close> with status 429 raised in
  line 108 is caught by \<open>except Exception\<close> in line 121, and the handler fails with status
  500; the provider's status and body are left only inside the \<open>str()\<close> of the caught
  exception.\<close>

theorem C1_provider_status_replaced_by_500:
  "fst (speech_to_text http_str example_env example_post_429 example_audio)
     = Inl (HTTPException 500
         (''Failed to convert speech to text: ''
            @ http_str 429 ''Sarvam API error: rate limit exceeded''))"
  by (simp add: speech_to_text_def speech_to_text_try_def SARVAM_API_KEY_def example_env_def
        example_post_429_def example_audio_def str_exn_def Let_def)

end
